theory Spec2Isabelle
  imports Main "HOL-Library.Word"
begin

section \<open>Remote attach on Windows: \<^verbatim>\<open>attach_hotspot_windows.c\<close>\<close>

text \<open>
  The file has three functions: \<^verbatim>\<open>execute_remote_attach\<close>, the routine that is meant to
  run inside the target JVM; \<^verbatim>\<open>allocate_code\<close>, which copies that routine into the
  target; and \<^verbatim>\<open>allocate_remote_argument\<close>, which builds an \<^verbatim>\<open>EnqueueOperation\<close>
  block and allocates memory for it in the target.

  The embedding follows the C text statement by statement. What C leaves to its
  environment is made explicit:
  \<^item> a C \<^verbatim>\<open>char\<close> is a \<^typ>\<open>char\<close>, a \<^verbatim>\<open>char[n]\<close> array is a \<^typ>\<open>string\<close> of length
    \<open>n\<close> holding all \<open>n\<close> bytes, terminator and the bytes after it included;
  \<^item> a \<^verbatim>\<open>const char *\<close> parameter is a \<^typ>\<open>string option\<close>: \<open>None\<close> is the null
    pointer, \<open>Some s\<close> points at the bytes \<open>s\<close> followed by a terminator, so the C
    string it denotes ends at the first \<open>NUL\<close> of \<open>s\<close>, if there is one;
  \<^item> pointers and handles are 64-bit words (the Win64 ABI), the null pointer is 0;
  \<^item> undefined behaviour of C (a null pointer read, a write past an array, a call
    through a pointer at which there is no function) is a value of type \<open>fault\<close>;
  \<^item> calls that leave the function (the C library, the Windows API, calls through
    function pointers) are recorded, with their arguments, in a list of events.
\<close>

subsection \<open>Constants and types\<close>

type_synonym ptr = "64 word"
type_synonym DWORD = "32 word"

abbreviation NULL :: ptr where
  "NULL \<equiv> 0"

abbreviation NUL :: char where
  "NUL \<equiv> CHR 0x00"

definition ENQUEUE_ERROR :: DWORD where
  "ENQUEUE_ERROR = 0xffff"

definition CODE_SIZE :: nat where
  "CODE_SIZE = 1024"

text \<open>
  \<^verbatim>\<open>MAX_PATH\<close> comes from \<^verbatim>\<open>windows.h\<close>, which is not part of the repository; the
  Windows SDK defines it as 260.
\<close>

definition MAX_PATH :: nat where
  "MAX_PATH = 260"

text \<open>
  \<^verbatim>\<open>typedef struct { GetModuleHandle_t GetModuleHandleA; GetProcAddress_t GetProcAddress;
  char library[32]; char command[32]; char pipe[MAX_PATH]; char argument[4][MAX_PATH]; }
  EnqueueOperation;\<close>
\<close>

record EnqueueOperation =
  GetModuleHandleA :: ptr
  GetProcAddress :: ptr
  library :: string
  command :: string
  pipe :: string
  argument :: "string list"

datatype fault = Null_dereference | Out_of_bounds_write | Bad_call

datatype protection = PAGE_READWRITE | PAGE_EXECUTE_READWRITE

text \<open>
  The calls a function makes. \<open>Printf\<close> and \<open>Fflush_stdout\<close> are calls of the C library
  through the import table of the image the function was compiled into; the three
  \<open>Via_\<close> events are calls through a pointer taken from an argument block; the three
  \<open>Call_\<close> events are the Windows calls on the target process, with the process
  handle, the address, the size and (for the write) the bytes read from the source
  buffer.
\<close>

datatype event =
    Printf string
  | Fflush_stdout
  | Via_GetModuleHandleA ptr string
  | Via_GetProcAddress ptr ptr string
  | Via_JVM_EnqueueOperation ptr string string string string string
  | Call_VirtualAllocEx ptr ptr nat protection
  | Call_WriteProcessMemory ptr ptr string nat
  | Call_VirtualFreeEx ptr ptr nat

subsection \<open>The routine run in the target: \<^verbatim>\<open>execute_remote_attach\<close>\<close>

text \<open>
  The process in which the routine runs decides what a call through a pointer does.
  \<open>module_code t a\<close> is the function at address \<open>a\<close> when it is called as a
  \<^verbatim>\<open>GetModuleHandle_t\<close>, \<open>proc_code t a\<close> when called as a \<^verbatim>\<open>GetProcAddress_t\<close>,
  \<open>entry_code t a\<close> when called as a \<^verbatim>\<open>JVM_EnqueueOperation_t\<close>; \<open>None\<close> where a call
  of that address does not return. A \<^verbatim>\<open>char *\<close> argument is passed as the array it
  points to. The \<^verbatim>\<open>int\<close> an entry point returns is given by its 32 bits.
\<close>

record target =
  module_code :: "ptr \<Rightarrow> (string \<Rightarrow> ptr) option"
  proc_code :: "ptr \<Rightarrow> (ptr \<Rightarrow> string \<Rightarrow> ptr) option"
  entry_code :: "ptr \<Rightarrow> (string \<Rightarrow> string \<Rightarrow> string \<Rightarrow> string \<Rightarrow> string \<Rightarrow> 32 word) option"

text \<open>The cast \<^verbatim>\<open>(DWORD)\<close> of an \<^verbatim>\<open>int\<close>: the same 32 bits, read unsigned.\<close>

definition cast_DWORD :: "32 word \<Rightarrow> DWORD" where
  "cast_DWORD r = ucast r"

definition printf :: "string \<Rightarrow> event list \<Rightarrow> event list" where
  "printf literal es = es @ [Printf literal]"

definition fflush_stdout :: "event list \<Rightarrow> event list" where
  "fflush_stdout es = es @ [Fflush_stdout]"

text \<open>
  \<open>execute_remote_attach t operation es\<close>: the routine called with a pointer to the
  block \<open>operation\<close>, in the process \<open>t\<close>, after the events \<open>es\<close>. It returns the
  \<^verbatim>\<open>DWORD\<close> and the events, or a fault.
\<close>

definition execute_remote_attach :: "target \<Rightarrow> EnqueueOperation \<Rightarrow> event list \<Rightarrow> fault + (DWORD \<times> event list)" where
  "execute_remote_attach t operation es0 =
    (let es1 = printf ''execute_remote_attach'' es0;
         es2 = fflush_stdout es1
     in case module_code t (GetModuleHandleA operation) of
          None \<Rightarrow> Inl Bad_call
        | Some get_module \<Rightarrow>
            (let lib = get_module (library operation);
                 es3 = es2 @ [Via_GetModuleHandleA (GetModuleHandleA operation) (library operation)]
             in if lib \<noteq> NULL then
                  (case proc_code t (GetProcAddress operation) of
                     None \<Rightarrow> Inl Bad_call
                   | Some get_proc \<Rightarrow>
                       (let JVM_EnqueueOperation = get_proc lib (command operation);
                            es4 = es3 @ [Via_GetProcAddress (GetProcAddress operation) lib (command operation)]
                        in if JVM_EnqueueOperation \<noteq> NULL then
                             (case entry_code t JVM_EnqueueOperation of
                                None \<Rightarrow> Inl Bad_call
                              | Some entry \<Rightarrow>
                                  Inr (cast_DWORD (entry (argument operation ! 0)
                                                         (argument operation ! 1)
                                                         (argument operation ! 2)
                                                         (argument operation ! 3)
                                                         (pipe operation)),
                                       es4 @ [Via_JVM_EnqueueOperation JVM_EnqueueOperation
                                                (argument operation ! 0)
                                                (argument operation ! 1)
                                                (argument operation ! 2)
                                                (argument operation ! 3)
                                                (pipe operation)]))
                           else Inr (ENQUEUE_ERROR, es4)))
                else Inr (ENQUEUE_ERROR, es3)))"

text \<open>
  Whether an event is a call through a pointer stored in the argument block, the
  only kind of call the routine may make once it runs in another process.
\<close>

fun through_block :: "event \<Rightarrow> bool" where
  "through_block (Via_GetModuleHandleA f name) = True"
| "through_block (Via_GetProcAddress f m name) = True"
| "through_block (Via_JVM_EnqueueOperation f a0 a1 a2 a3 p) = True"
| "through_block e = False"

subsection \<open>C strings and \<^verbatim>\<open>strcpy\<close>\<close>

text \<open>The C string held by a buffer: its bytes up to the first terminator.\<close>

definition c_string :: "string \<Rightarrow> string" where
  "c_string s = takeWhile (\<lambda>c. c \<noteq> NUL) s"

text \<open>
  \<open>strcpy destination source\<close> is the new content of the array \<open>destination\<close>: the
  C string of the source, its terminator, and the old bytes behind them. Reading
  through a null pointer and writing past the end of the array are faults.
\<close>

definition strcpy :: "string \<Rightarrow> string option \<Rightarrow> fault + string" where
  "strcpy destination source =
     (case source of
        None \<Rightarrow> Inl Null_dereference
      | Some s \<Rightarrow>
          if length (c_string s) < length destination
          then Inr (c_string s @ NUL # drop (length (c_string s) + 1) destination)
          else Inl Out_of_bounds_write)"

definition and_then :: "fault + 'a \<Rightarrow> ('a \<Rightarrow> fault + 'b) \<Rightarrow> fault + 'b" where
  "and_then r f = (case r of Inl e \<Rightarrow> Inl e | Inr x \<Rightarrow> f x)"

subsection \<open>The layout of \<^verbatim>\<open>EnqueueOperation\<close>\<close>

text \<open>
  Pointers take 8 bytes, least significant byte first. The members follow one
  another without gaps (16 + 32 + 32 + 5 * \<open>MAX_PATH\<close> = 1380 bytes), and the size of
  the struct is rounded up to its alignment, 8.
\<close>

definition sizeof_ptr :: nat where
  "sizeof_ptr = 8"

definition sizeof_EnqueueOperation :: nat where
  "sizeof_EnqueueOperation = ((2 * sizeof_ptr + 32 + 32 + MAX_PATH + 4 * MAX_PATH + 7) div 8) * 8"

definition ptr_bytes :: "ptr \<Rightarrow> string" where
  "ptr_bytes p = map (\<lambda>i. char_of (unat (drop_bit (8 * i) p))) [0..<sizeof_ptr]"

definition ptr_of_bytes :: "string \<Rightarrow> ptr" where
  "ptr_of_bytes bs = foldr (\<lambda>c p. of_char c + 256 * p) bs 0"

text \<open>The struct held by \<open>sizeof_EnqueueOperation\<close> bytes of memory.\<close>

definition read_operation :: "string \<Rightarrow> EnqueueOperation" where
  "read_operation bs =
     \<lparr>GetModuleHandleA = ptr_of_bytes (take sizeof_ptr bs),
      GetProcAddress = ptr_of_bytes (take sizeof_ptr (drop sizeof_ptr bs)),
      library = take 32 (drop (2 * sizeof_ptr) bs),
      command = take 32 (drop (2 * sizeof_ptr + 32) bs),
      pipe = take MAX_PATH (drop (2 * sizeof_ptr + 64) bs),
      argument = map (\<lambda>i. take MAX_PATH (drop (2 * sizeof_ptr + 64 + MAX_PATH * (i + 1)) bs))
                     [0..<4]\<rparr>"

text \<open>
  The bytes of a struct in memory; \<open>padding\<close> stands for the bytes between the last
  member and the end of the struct, which no member holds.
\<close>

definition operation_bytes :: "EnqueueOperation \<Rightarrow> string \<Rightarrow> string" where
  "operation_bytes operation padding =
     ptr_bytes (GetModuleHandleA operation) @ ptr_bytes (GetProcAddress operation) @
     library operation @ command operation @ pipe operation @ concat (argument operation) @
     padding"

subsection \<open>The injecting process and the Windows calls on the target\<close>

text \<open>
  What the injecting process holds before a call: the addresses at which it sees
  \<^verbatim>\<open>GetModuleHandleA\<close> and \<^verbatim>\<open>GetProcAddress\<close>, the bytes of its memory from the
  address of \<^verbatim>\<open>execute_remote_attach\<close> on, and the bytes of the stack where the
  local variable \<^verbatim>\<open>operation\<close> will live (C does not initialise it).
\<close>

record local_process =
  addr_GetModuleHandleA :: ptr
  addr_GetProcAddress :: ptr
  text_bytes :: "nat \<Rightarrow> char"
  stack_bytes :: "nat \<Rightarrow> char"

text \<open>
  The target process, as the injecting side sees it: the regions committed in it, by
  base address, and the events so far (oldest first).
\<close>

record region =
  bytes :: string
  protect :: protection

record world =
  regions :: "ptr \<Rightarrow> region option"
  events :: "event list"

text \<open>
  What the operating system answers: the address \<^verbatim>\<open>VirtualAllocEx\<close> returns (\<open>NULL\<close>
  when it fails), and whether \<^verbatim>\<open>WriteProcessMemory\<close> succeeds.
\<close>

record os =
  alloc_ret :: ptr
  write_ok :: bool

text \<open>
  \<^verbatim>\<open>VirtualAllocEx(process, address, n, MEM_COMMIT, protect)\<close>: on success the
  target has a new region of \<open>n\<close> zero bytes at the returned address.
\<close>

definition VirtualAllocEx :: "os \<Rightarrow> ptr \<Rightarrow> ptr \<Rightarrow> nat \<Rightarrow> protection \<Rightarrow> world \<Rightarrow> ptr \<times> world" where
  "VirtualAllocEx os process address n prot w =
     (alloc_ret os,
      w\<lparr>regions := (if alloc_ret os = NULL then regions w
                     else (regions w)(alloc_ret os \<mapsto> \<lparr>bytes = replicate n NUL, protect = prot\<rparr>)),
        events := events w @ [Call_VirtualAllocEx process address n prot]\<rparr>)"

text \<open>
  \<^verbatim>\<open>WriteProcessMemory(process, base, buffer, n, NULL)\<close>, where \<open>buffer\<close> is the \<open>n\<close>
  bytes of the injecting process at the source address: on success they replace the
  first \<open>n\<close> bytes of the region at \<open>base\<close>; on failure the target is unchanged.
\<close>

definition WriteProcessMemory :: "os \<Rightarrow> ptr \<Rightarrow> ptr \<Rightarrow> string \<Rightarrow> nat \<Rightarrow> world \<Rightarrow> bool \<times> world" where
  "WriteProcessMemory os process base buffer n w =
     (let w' = w\<lparr>events := events w @ [Call_WriteProcessMemory process base buffer n]\<rparr>
      in case regions w base of
           None \<Rightarrow> (False, w')
         | Some r \<Rightarrow>
             if write_ok os \<and> n \<le> length (bytes r)
             then (True, w'\<lparr>regions := (regions w)(base \<mapsto> r\<lparr>bytes := take n buffer @ drop n (bytes r)\<rparr>)\<rparr>)
             else (False, w'))"

text \<open>
  \<^verbatim>\<open>VirtualFreeEx(process, address, n, MEM_RELEASE)\<close>: Windows releases a region
  only when \<open>address\<close> is the base address \<^verbatim>\<open>VirtualAllocEx\<close> returned for it and
  \<open>n\<close> is 0; any other call fails and releases nothing.
\<close>

definition VirtualFreeEx :: "ptr \<Rightarrow> ptr \<Rightarrow> nat \<Rightarrow> world \<Rightarrow> bool \<times> world" where
  "VirtualFreeEx process address n w =
     (let w' = w\<lparr>events := events w @ [Call_VirtualFreeEx process address n]\<rparr>
      in if regions w address \<noteq> None \<and> n = 0
         then (True, w'\<lparr>regions := (regions w)(address := None)\<rparr>)
         else (False, w'))"

subsection \<open>\<^verbatim>\<open>allocate_code\<close>\<close>

definition allocate_code :: "os \<Rightarrow> local_process \<Rightarrow> ptr \<Rightarrow> world \<Rightarrow> ptr \<times> world" where
  "allocate_code os l process w0 =
     (let w1 = w0\<lparr>events := printf ''allocate_code'' (events w0)\<rparr>;
          w2 = w1\<lparr>events := fflush_stdout (events w1)\<rparr>;
          (code, w3) = VirtualAllocEx os process NULL CODE_SIZE PAGE_EXECUTE_READWRITE w2
      in if code = NULL then (NULL, w3)
         else (let (written, w4) = WriteProcessMemory os process code
                                     (map (text_bytes l) [0..<CODE_SIZE]) CODE_SIZE w3
               in if \<not> written
                  then (let (freed, w5) = VirtualFreeEx process NULL CODE_SIZE w4 in (NULL, w5))
                  else (code, w4)))"

subsection \<open>\<^verbatim>\<open>allocate_remote_argument\<close>\<close>

text \<open>
  Lines 85 to 94 of the C file build the local variable \<^verbatim>\<open>operation\<close>: the spec's
  Argument Block Builder. \<open>populate\<close> is that part of the function.
\<close>

definition populate :: "local_process \<Rightarrow> string option \<Rightarrow> string option \<Rightarrow> string option \<Rightarrow> string option \<Rightarrow> string option \<Rightarrow> fault + EnqueueOperation" where
  "populate l pipe_arg argument0 argument1 argument2 argument3 =
     (let op0 = read_operation (map (stack_bytes l) [0..<sizeof_EnqueueOperation]);
          op1 = op0\<lparr>GetModuleHandleA := addr_GetModuleHandleA l\<rparr>;
          op2 = op1\<lparr>GetProcAddress := addr_GetProcAddress l\<rparr>
      in and_then (strcpy (library op2) (Some ''jvm'')) (\<lambda>b.
         let op3 = op2\<lparr>library := b\<rparr>
         in and_then (strcpy (command op3) (Some ''JVM_EnqueueOperation'')) (\<lambda>b.
         let op4 = op3\<lparr>command := b\<rparr>
         in and_then (strcpy (pipe op4) pipe_arg) (\<lambda>b.
         let op5 = op4\<lparr>pipe := b\<rparr>
         in and_then (strcpy (argument op5 ! 0) (if argument0 = None then Some [] else argument0)) (\<lambda>b.
         let op6 = op5\<lparr>argument := (argument op5)[0 := b]\<rparr>
         in and_then (strcpy (argument op6 ! 1) (if argument1 = None then Some [] else argument1)) (\<lambda>b.
         let op7 = op6\<lparr>argument := (argument op6)[1 := b]\<rparr>
         in and_then (strcpy (argument op7 ! 2) (if argument2 = None then Some [] else argument2)) (\<lambda>b.
         let op8 = op7\<lparr>argument := (argument op7)[2 := b]\<rparr>
         in and_then (strcpy (argument op8 ! 3) (if argument3 = None then Some [] else argument3)) (\<lambda>b.
         Inr (op8\<lparr>argument := (argument op8)[3 := b]\<rparr>)))))))))"

text \<open>
  The whole function. As in the C text, the buffer handed to \<^verbatim>\<open>WriteProcessMemory\<close>
  is \<^verbatim>\<open>&process\<close> with \<^verbatim>\<open>sizeof(process)\<close> bytes, the bytes of the handle, and the
  address handed to \<^verbatim>\<open>VirtualFreeEx\<close> is \<^verbatim>\<open>NULL\<close>; \<^verbatim>\<open>operation\<close> is not read after
  it is built.
\<close>

definition allocate_remote_argument :: "os \<Rightarrow> local_process \<Rightarrow> ptr \<Rightarrow> string option \<Rightarrow> string option \<Rightarrow> string option \<Rightarrow> string option \<Rightarrow> string option \<Rightarrow> world \<Rightarrow> fault + (ptr \<times> world)" where
  "allocate_remote_argument os l process pipe_arg argument0 argument1 argument2 argument3 w0 =
     (let w1 = w0\<lparr>events := printf ''allocate_remote_argument'' (events w0)\<rparr>;
          w2 = w1\<lparr>events := fflush_stdout (events w1)\<rparr>
      in and_then (populate l pipe_arg argument0 argument1 argument2 argument3) (\<lambda>operation.
         let (allocation, w3) = VirtualAllocEx os process NULL sizeof_EnqueueOperation PAGE_READWRITE w2
         in if allocation = NULL then Inr (NULL, w3)
            else (let (written, w4) = WriteProcessMemory os process allocation
                                        (ptr_bytes process) sizeof_ptr w3
                  in if \<not> written
                     then (let (freed, w5) = VirtualFreeEx process NULL sizeof_EnqueueOperation w4
                           in Inr (NULL, w5))
                     else Inr (allocation, w4))))"

subsection \<open>Predicates used in the statements\<close>

text \<open>
  \<open>fits n a\<close>: the C string of the argument, with its terminator, takes at most \<open>n\<close>
  bytes (a null pointer stands for the empty string). \<open>denoted a\<close> is that C string.
  \<open>terminated n field\<close>: the array has \<open>n\<close> bytes and one of them is a terminator.
\<close>

definition fits :: "nat \<Rightarrow> string option \<Rightarrow> bool" where
  "fits n a = (case a of None \<Rightarrow> True | Some s \<Rightarrow> length (c_string s) < n)"

definition denoted :: "string option \<Rightarrow> string" where
  "denoted a = (case a of None \<Rightarrow> [] | Some s \<Rightarrow> c_string s)"

definition terminated :: "nat \<Rightarrow> string \<Rightarrow> bool" where
  "terminated n field = (length field = n \<and> NUL \<in> set field)"

text \<open>The Windows calls on the target process among the events.\<close>

fun remote_call :: "event \<Rightarrow> bool" where
  "remote_call (Call_VirtualAllocEx process address n prot) = True"
| "remote_call (Call_WriteProcessMemory process base buffer n) = True"
| "remote_call (Call_VirtualFreeEx process address n) = True"
| "remote_call e = False"

text \<open>
  A call started in the world \<open>w0\<close> was rejected before any remote operation: it
  returned, the value returned is \<open>NULL\<close>, and no Windows call on the target was made.
\<close>

definition rejected :: "world \<Rightarrow> fault + (ptr \<times> world) \<Rightarrow> bool" where
  "rejected w0 r =
     (case r of
        Inl f \<Rightarrow> False
      | Inr (a, w) \<Rightarrow> a = NULL \<and> filter remote_call (events w) = filter remote_call (events w0))"

subsection \<open>Concrete inputs\<close>

text \<open>
  A block as the builder makes it for the pipe \<^verbatim>\<open>pipe1\<close> and the arguments \<^verbatim>\<open>a\<close>,
  \<^verbatim>\<open>b\<close>, none, none, over zeroed memory.
\<close>

definition example_operation :: EnqueueOperation where
  "example_operation =
     \<lparr>GetModuleHandleA = 0x7FFA1000, GetProcAddress = 0x7FFA2000,
      library = ''jvm'' @ replicate 29 NUL,
      command = ''JVM_EnqueueOperation'' @ replicate 12 NUL,
      pipe = ''pipe1'' @ replicate 255 NUL,
      argument = [''a'' @ replicate 259 NUL, ''b'' @ replicate 259 NUL,
                  replicate 260 NUL, replicate 260 NUL]\<rparr>"

text \<open>
  A target in which \<^verbatim>\<open>jvm\<close> is loaded and exports \<^verbatim>\<open>JVM_EnqueueOperation\<close>, whose
  entry point returns \<open>r\<close>; and a target in which no module is found.
\<close>

definition jvm_module :: "string \<Rightarrow> ptr" where
  "jvm_module name = (if c_string name = ''jvm'' then 0x6D800000 else NULL)"

definition jvm_export :: "ptr \<Rightarrow> string \<Rightarrow> ptr" where
  "jvm_export m name =
     (if m = 0x6D800000 \<and> c_string name = ''JVM_EnqueueOperation'' then 0x6D801234 else NULL)"

definition example_target :: "32 word \<Rightarrow> target" where
  "example_target r =
     \<lparr>module_code = (\<lambda>a. if a = 0x7FFA1000 then Some jvm_module else None),
      proc_code = (\<lambda>a. if a = 0x7FFA2000 then Some jvm_export else None),
      entry_code = (\<lambda>a. if a = 0x6D801234 then Some (\<lambda>a0 a1 a2 a3 p. r) else None)\<rparr>"

definition no_jvm_target :: target where
  "no_jvm_target =
     \<lparr>module_code = (\<lambda>a. if a = 0x7FFA1000 then Some (\<lambda>name. NULL) else None),
      proc_code = (\<lambda>a. None),
      entry_code = (\<lambda>a. None)\<rparr>"

text \<open>
  An injecting process whose stack and code bytes are all \<open>0xCC\<close>, an operating
  system that allocates at \<open>0x20000\<close> and lets the write succeed, one that
  allocates there and lets the write fail, and a target with no region yet.
\<close>

definition example_local :: local_process where
  "example_local =
     \<lparr>addr_GetModuleHandleA = 0x7FFA1000, addr_GetProcAddress = 0x7FFA2000,
      text_bytes = (\<lambda>i. CHR 0xCC), stack_bytes = (\<lambda>i. CHR 0xCC)\<rparr>"

definition os_write_succeeds :: os where
  "os_write_succeeds = \<lparr>alloc_ret = 0x20000, write_ok = True\<rparr>"

definition os_write_fails :: os where
  "os_write_fails = \<lparr>alloc_ret = 0x20000, write_ok = False\<rparr>"

definition empty_world :: world where
  "empty_world = \<lparr>regions = (\<lambda>a. None), events = []\<rparr>"

section \<open>Properties\<close>

subsection \<open>C strings, \<^verbatim>\<open>strcpy\<close> and the layout\<close>

lemma cast_DWORD_id: "cast_DWORD r = r"
  by (simp add: cast_DWORD_def)

lemma sizeof_EnqueueOperation_eq: "sizeof_EnqueueOperation = 1384"
  by (simp add: sizeof_EnqueueOperation_def sizeof_ptr_def MAX_PATH_def)

lemma upt_4: "[0..<4] = [0, 1, 2, Suc 2]"
  by (simp add: upt_rec)

lemma length_ptr_bytes: "length (ptr_bytes p) = 8"
  by (simp add: ptr_bytes_def sizeof_ptr_def)

lemma c_string_no_NUL: "NUL \<notin> set (c_string s)"
  by (auto simp: c_string_def dest: set_takeWhileD)

lemma c_string_append_NUL: "NUL \<notin> set s \<Longrightarrow> c_string (s @ NUL # t) = s"
  by (induction s) (auto simp: c_string_def)

lemma c_string_Nil: "c_string [] = []"
  by (simp add: c_string_def)

lemma c_string_NUL_Cons: "c_string (NUL # t) = []"
  by (simp add: c_string_def)

lemma c_string_idem: "c_string (c_string s @ NUL # t) = c_string s"
  by (simp add: c_string_append_NUL c_string_no_NUL)

lemma c_string_id: "NUL \<notin> set s \<Longrightarrow> c_string s = s"
  by (auto simp: c_string_def)

lemma c_string_shorter: "NUL \<in> set field \<Longrightarrow> length (c_string field) < length field"
  by (induction field) (auto simp: c_string_def)

lemma terminated_c_string_less: "terminated n field \<Longrightarrow> length (c_string field) < n"
  by (auto simp: terminated_def dest: c_string_shorter)

lemma strcpy_Inr:
  "strcpy d src = Inr b \<longleftrightarrow>
     (\<exists>s. src = Some s \<and> length (c_string s) < length d \<and>
          b = c_string s @ NUL # drop (length (c_string s) + 1) d)"
  by (auto simp: strcpy_def split: option.splits)

lemma strcpy_or_empty:
  assumes "strcpy d (if a = None then Some [] else a) = Inr b"
  shows "fits (length d) a" and "terminated (length d) b" and "c_string b = denoted a"
  using assms
  by (auto simp: strcpy_Inr fits_def denoted_def terminated_def c_string_idem c_string_Nil
      c_string_NUL_Cons split: option.splits if_splits)

lemma strcpy_pipe:
  assumes "strcpy d p = Inr b"
  shows "p \<noteq> None" and "fits (length d) p" and "terminated (length d) b"
    and "c_string b = denoted p"
  using assms
  by (auto simp: strcpy_Inr fits_def denoted_def terminated_def c_string_idem)

lemma strcpy_literal:
  assumes "strcpy d (Some s) = Inr b" and "NUL \<notin> set s"
  shows "terminated (length d) b" and "c_string b = s"
  using assms
  by (auto simp: strcpy_Inr terminated_def c_string_id c_string_append_NUL)

lemma strcpy_fits:
  "fits (length d) src \<Longrightarrow> 0 < length d \<Longrightarrow>
   \<exists>b. strcpy d (if src = None then Some [] else src) = Inr b"
  by (auto simp: strcpy_def fits_def c_string_Nil split: option.splits)

lemma strcpy_fits_pipe:
  "fits (length d) (Some s) \<Longrightarrow> \<exists>b. strcpy d (Some s) = Inr b"
  by (auto simp: strcpy_def fits_def)

lemma and_then_Inr: "and_then r f = Inr y \<longleftrightarrow> (\<exists>x. r = Inr x \<and> f x = Inr y)"
  by (cases r) (simp_all add: and_then_def)

lemma read_stack_lengths:
  "length (library (read_operation (map f [0..<sizeof_EnqueueOperation]))) = 32"
  "length (command (read_operation (map f [0..<sizeof_EnqueueOperation]))) = 32"
  "length (pipe (read_operation (map f [0..<sizeof_EnqueueOperation]))) = MAX_PATH"
  "length (argument (read_operation (map f [0..<sizeof_EnqueueOperation]))) = 4"
  "i < 4 \<Longrightarrow> length (argument (read_operation (map f [0..<sizeof_EnqueueOperation])) ! i) = MAX_PATH"
  by (simp_all add: read_operation_def sizeof_EnqueueOperation_eq sizeof_ptr_def MAX_PATH_def)

subsection \<open>The block built by \<^verbatim>\<open>allocate_remote_argument\<close>\<close>

text \<open>The seven copies, with the fields of the uninitialised struct named.\<close>

lemma populate_unfold:
  "populate l p a0 a1 a2 a3 =
     (let op0 = read_operation (map (stack_bytes l) [0..<sizeof_EnqueueOperation])
      in and_then (strcpy (library op0) (Some ''jvm'')) (\<lambda>b1.
         and_then (strcpy (command op0) (Some ''JVM_EnqueueOperation'')) (\<lambda>b2.
         and_then (strcpy (pipe op0) p) (\<lambda>b3.
         and_then (strcpy (argument op0 ! 0) (if a0 = None then Some [] else a0)) (\<lambda>b4.
         and_then (strcpy (argument op0 ! 1) (if a1 = None then Some [] else a1)) (\<lambda>b5.
         and_then (strcpy (argument op0 ! 2) (if a2 = None then Some [] else a2)) (\<lambda>b6.
         and_then (strcpy (argument op0 ! 3) (if a3 = None then Some [] else a3)) (\<lambda>b7.
         Inr \<lparr>GetModuleHandleA = addr_GetModuleHandleA l,
              GetProcAddress = addr_GetProcAddress l,
              library = b1, command = b2, pipe = b3,
              argument = [b4, b5, b6, b7]\<rparr>))))))))"
  by (simp add: populate_def Let_def read_operation_def upt_4)

lemma populate_Inr:
  assumes "populate l p a0 a1 a2 a3 = Inr operation"
  shows "p \<noteq> None \<and> fits MAX_PATH p \<and> fits MAX_PATH a0 \<and> fits MAX_PATH a1 \<and>
         fits MAX_PATH a2 \<and> fits MAX_PATH a3"
    and "GetModuleHandleA operation = addr_GetModuleHandleA l"
    and "GetProcAddress operation = addr_GetProcAddress l"
    and "terminated 32 (library operation) \<and> c_string (library operation) = ''jvm''"
    and "terminated 32 (command operation) \<and> c_string (command operation) = ''JVM_EnqueueOperation''"
    and "terminated MAX_PATH (pipe operation) \<and> c_string (pipe operation) = denoted p"
    and "length (argument operation) = 4"
    and "terminated MAX_PATH (argument operation ! 0) \<and> c_string (argument operation ! 0) = denoted a0"
    and "terminated MAX_PATH (argument operation ! 1) \<and> c_string (argument operation ! 1) = denoted a1"
    and "terminated MAX_PATH (argument operation ! 2) \<and> c_string (argument operation ! 2) = denoted a2"
    and "terminated MAX_PATH (argument operation ! 3) \<and> c_string (argument operation ! 3) = denoted a3"
proof -
  let ?op0 = "read_operation (map (stack_bytes l) [0..<sizeof_EnqueueOperation])"
  from assms obtain b1 b2 b3 b4 b5 b6 b7 where
    b1: "strcpy (library ?op0) (Some ''jvm'') = Inr b1" and
    b2: "strcpy (command ?op0) (Some ''JVM_EnqueueOperation'') = Inr b2" and
    b3: "strcpy (pipe ?op0) p = Inr b3" and
    b4: "strcpy (argument ?op0 ! 0) (if a0 = None then Some [] else a0) = Inr b4" and
    b5: "strcpy (argument ?op0 ! 1) (if a1 = None then Some [] else a1) = Inr b5" and
    b6: "strcpy (argument ?op0 ! 2) (if a2 = None then Some [] else a2) = Inr b6" and
    b7: "strcpy (argument ?op0 ! 3) (if a3 = None then Some [] else a3) = Inr b7" and
    op: "operation = \<lparr>GetModuleHandleA = addr_GetModuleHandleA l,
              GetProcAddress = addr_GetProcAddress l,
              library = b1, command = b2, pipe = b3,
              argument = [b4, b5, b6, b7]\<rparr>"
    unfolding populate_unfold Let_def and_then_Inr by blast
  show "p \<noteq> None \<and> fits MAX_PATH p \<and> fits MAX_PATH a0 \<and> fits MAX_PATH a1 \<and>
         fits MAX_PATH a2 \<and> fits MAX_PATH a3"
    using strcpy_pipe(1,2)[OF b3] strcpy_or_empty(1)[OF b4] strcpy_or_empty(1)[OF b5]
      strcpy_or_empty(1)[OF b6] strcpy_or_empty(1)[OF b7]
    by (simp add: read_stack_lengths)
  show "GetModuleHandleA operation = addr_GetModuleHandleA l"
    and "GetProcAddress operation = addr_GetProcAddress l"
    and "length (argument operation) = 4"
    by (simp_all add: op)
  show "terminated 32 (library operation) \<and> c_string (library operation) = ''jvm''"
    using strcpy_literal[OF b1] by (simp add: op read_stack_lengths)
  show "terminated 32 (command operation) \<and> c_string (command operation) = ''JVM_EnqueueOperation''"
    using strcpy_literal[OF b2] by (simp add: op read_stack_lengths)
  show "terminated MAX_PATH (pipe operation) \<and> c_string (pipe operation) = denoted p"
    using strcpy_pipe(3,4)[OF b3] by (simp add: op read_stack_lengths)
  show "terminated MAX_PATH (argument operation ! 0) \<and> c_string (argument operation ! 0) = denoted a0"
    using strcpy_or_empty(2,3)[OF b4] by (simp add: op read_stack_lengths)
  show "terminated MAX_PATH (argument operation ! 1) \<and> c_string (argument operation ! 1) = denoted a1"
    using strcpy_or_empty(2,3)[OF b5] by (simp add: op read_stack_lengths)
  show "terminated MAX_PATH (argument operation ! 2) \<and> c_string (argument operation ! 2) = denoted a2"
    using strcpy_or_empty(2,3)[OF b6] by (simp add: op read_stack_lengths)
  show "terminated MAX_PATH (argument operation ! 3) \<and> c_string (argument operation ! 3) = denoted a3"
    using strcpy_or_empty(2,3)[OF b7] by (simp add: op read_stack_lengths)
qed

text \<open>The block is built exactly when the pipe is given and every string fits.\<close>

lemma populate_defined:
  assumes "fits MAX_PATH (Some s)" and "fits MAX_PATH a0" and "fits MAX_PATH a1"
    and "fits MAX_PATH a2" and "fits MAX_PATH a3"
  shows "\<exists>operation. populate l (Some s) a0 a1 a2 a3 = Inr operation"
proof -
  let ?op0 = "read_operation (map (stack_bytes l) [0..<sizeof_EnqueueOperation])"
  obtain b1 where b1: "strcpy (library ?op0) (Some ''jvm'') = Inr b1"
    by (simp add: strcpy_def read_stack_lengths c_string_def)
  obtain b2 where b2: "strcpy (command ?op0) (Some ''JVM_EnqueueOperation'') = Inr b2"
    by (simp add: strcpy_def read_stack_lengths c_string_def)
  obtain b3 where b3: "strcpy (pipe ?op0) (Some s) = Inr b3"
    using strcpy_fits_pipe[of "pipe ?op0" s] assms(1) by (auto simp: read_stack_lengths)
  obtain b4 where b4: "strcpy (argument ?op0 ! 0) (if a0 = None then Some [] else a0) = Inr b4"
    using strcpy_fits[of "argument ?op0 ! 0" a0] assms(2)
    by (auto simp: read_stack_lengths MAX_PATH_def)
  obtain b5 where b5: "strcpy (argument ?op0 ! 1) (if a1 = None then Some [] else a1) = Inr b5"
    using strcpy_fits[of "argument ?op0 ! 1" a1] assms(3)
    by (auto simp: read_stack_lengths MAX_PATH_def)
  obtain b6 where b6: "strcpy (argument ?op0 ! 2) (if a2 = None then Some [] else a2) = Inr b6"
    using strcpy_fits[of "argument ?op0 ! 2" a2] assms(4)
    by (auto simp: read_stack_lengths MAX_PATH_def)
  obtain b7 where b7: "strcpy (argument ?op0 ! 3) (if a3 = None then Some [] else a3) = Inr b7"
    using strcpy_fits[of "argument ?op0 ! 3" a3] assms(5)
    by (auto simp: read_stack_lengths MAX_PATH_def)
  show ?thesis
    by (simp only: populate_unfold Let_def b1 b2 b3 b4 b5 b6 b7 and_then_def sum.case) blast
qed

lemma populate_NULL_pipe: "populate l None a0 a1 a2 a3 = Inl Null_dereference"
  unfolding populate_unfold Let_def
  by (simp add: and_then_def strcpy_def read_stack_lengths c_string_def)

subsection \<open>What \<^verbatim>\<open>allocate_remote_argument\<close> returns\<close>

lemma allocate_remote_argument_fault:
  "populate l p a0 a1 a2 a3 = Inl f \<Longrightarrow>
   allocate_remote_argument os l process p a0 a1 a2 a3 w = Inl f"
  by (simp add: allocate_remote_argument_def Let_def and_then_def)

lemma allocate_remote_argument_alloc_fails:
  assumes "populate l p a0 a1 a2 a3 = Inr operation" and "alloc_ret os = NULL"
  shows "allocate_remote_argument os l process p a0 a1 a2 a3 w =
           Inr (NULL,
                w\<lparr>events := events w @
                    [Printf ''allocate_remote_argument'', Fflush_stdout,
                     Call_VirtualAllocEx process NULL sizeof_EnqueueOperation PAGE_READWRITE]\<rparr>)"
  using assms
  by (simp add: allocate_remote_argument_def Let_def and_then_def VirtualAllocEx_def
      printf_def fflush_stdout_def)

lemma allocate_remote_argument_write_fails:
  assumes "populate l p a0 a1 a2 a3 = Inr operation" and "alloc_ret os \<noteq> NULL"
    and "\<not> write_ok os"
  shows "allocate_remote_argument os l process p a0 a1 a2 a3 w =
           Inr (NULL,
                w\<lparr>regions := (regions w)(alloc_ret os \<mapsto>
                     \<lparr>bytes = replicate sizeof_EnqueueOperation NUL, protect = PAGE_READWRITE\<rparr>),
                  events := events w @
                    [Printf ''allocate_remote_argument'', Fflush_stdout,
                     Call_VirtualAllocEx process NULL sizeof_EnqueueOperation PAGE_READWRITE,
                     Call_WriteProcessMemory process (alloc_ret os) (ptr_bytes process) sizeof_ptr,
                     Call_VirtualFreeEx process NULL sizeof_EnqueueOperation]\<rparr>)"
  using assms
  by (simp add: allocate_remote_argument_def Let_def and_then_def VirtualAllocEx_def
      WriteProcessMemory_def VirtualFreeEx_def printf_def fflush_stdout_def
      sizeof_EnqueueOperation_eq)

lemma allocate_remote_argument_succeeds:
  assumes "populate l p a0 a1 a2 a3 = Inr operation" and "alloc_ret os \<noteq> NULL"
    and "write_ok os"
  shows "allocate_remote_argument os l process p a0 a1 a2 a3 w =
           Inr (alloc_ret os,
                w\<lparr>regions := (regions w)(alloc_ret os \<mapsto>
                     \<lparr>bytes = ptr_bytes process @ replicate (sizeof_EnqueueOperation - sizeof_ptr) NUL,
                      protect = PAGE_READWRITE\<rparr>),
                  events := events w @
                    [Printf ''allocate_remote_argument'', Fflush_stdout,
                     Call_VirtualAllocEx process NULL sizeof_EnqueueOperation PAGE_READWRITE,
                     Call_WriteProcessMemory process (alloc_ret os) (ptr_bytes process) sizeof_ptr]\<rparr>)"
  using assms
  by (simp add: allocate_remote_argument_def Let_def and_then_def VirtualAllocEx_def
      WriteProcessMemory_def printf_def fflush_stdout_def length_ptr_bytes
      sizeof_EnqueueOperation_eq sizeof_ptr_def)

lemma allocate_remote_argument_Inr_populate:
  assumes "allocate_remote_argument os l process p a0 a1 a2 a3 w = Inr r"
  shows "\<exists>operation. populate l p a0 a1 a2 a3 = Inr operation"
  using assms
  by (cases "populate l p a0 a1 a2 a3") (simp_all add: allocate_remote_argument_fault)

lemma populate_too_long:
  assumes "\<not> (fits MAX_PATH (Some s) \<and> fits MAX_PATH a0 \<and> fits MAX_PATH a1 \<and>
         fits MAX_PATH a2 \<and> fits MAX_PATH a3)"
  shows "populate l (Some s) a0 a1 a2 a3 = Inl Out_of_bounds_write"
  using assms unfolding populate_unfold Let_def
  by (auto simp: and_then_def strcpy_def fits_def read_stack_lengths c_string_def
      split: option.splits)

text \<open>No call returns without having asked the target for memory.\<close>

lemma not_rejected:
  "\<not> rejected w (allocate_remote_argument os l process p a0 a1 a2 a3 w)"
proof (cases "populate l p a0 a1 a2 a3")
  case (Inl f)
  then show ?thesis
    by (simp add: allocate_remote_argument_fault rejected_def)
next
  case (Inr operation)
  show ?thesis
  proof (cases "alloc_ret os = NULL")
    case True
    show ?thesis
      by (simp add: allocate_remote_argument_alloc_fails[OF Inr True] rejected_def)
  next
    case False
    then show ?thesis
      by (cases "write_ok os")
        (simp_all add: allocate_remote_argument_succeeds[OF Inr False]
          allocate_remote_argument_write_fails[OF Inr False] rejected_def)
  qed
qed

subsection \<open>What \<^verbatim>\<open>allocate_code\<close> returns\<close>

lemma allocate_code_alloc_fails:
  assumes "alloc_ret os = NULL"
  shows "allocate_code os l process w =
           (NULL,
            w\<lparr>events := events w @
                [Printf ''allocate_code'', Fflush_stdout,
                 Call_VirtualAllocEx process NULL CODE_SIZE PAGE_EXECUTE_READWRITE]\<rparr>)"
  using assms
  by (simp add: allocate_code_def Let_def VirtualAllocEx_def printf_def fflush_stdout_def)

lemma allocate_code_write_fails:
  assumes "alloc_ret os \<noteq> NULL" and "\<not> write_ok os"
  shows "allocate_code os l process w =
           (NULL,
            w\<lparr>regions := (regions w)(alloc_ret os \<mapsto>
                 \<lparr>bytes = replicate CODE_SIZE NUL, protect = PAGE_EXECUTE_READWRITE\<rparr>),
              events := events w @
                [Printf ''allocate_code'', Fflush_stdout,
                 Call_VirtualAllocEx process NULL CODE_SIZE PAGE_EXECUTE_READWRITE,
                 Call_WriteProcessMemory process (alloc_ret os)
                   (map (text_bytes l) [0..<CODE_SIZE]) CODE_SIZE,
                 Call_VirtualFreeEx process NULL CODE_SIZE]\<rparr>)"
  using assms
  by (simp add: allocate_code_def Let_def VirtualAllocEx_def WriteProcessMemory_def
      VirtualFreeEx_def printf_def fflush_stdout_def CODE_SIZE_def)

lemma allocate_code_succeeds:
  assumes "alloc_ret os \<noteq> NULL" and "write_ok os"
  shows "allocate_code os l process w =
           (alloc_ret os,
            w\<lparr>regions := (regions w)(alloc_ret os \<mapsto>
                 \<lparr>bytes = map (text_bytes l) [0..<CODE_SIZE], protect = PAGE_EXECUTE_READWRITE\<rparr>),
              events := events w @
                [Printf ''allocate_code'', Fflush_stdout,
                 Call_VirtualAllocEx process NULL CODE_SIZE PAGE_EXECUTE_READWRITE,
                 Call_WriteProcessMemory process (alloc_ret os)
                   (map (text_bytes l) [0..<CODE_SIZE]) CODE_SIZE]\<rparr>)"
  using assms
  by (simp add: allocate_code_def Let_def VirtualAllocEx_def WriteProcessMemory_def
      printf_def fflush_stdout_def)

subsection \<open>The concrete inputs, evaluated\<close>

lemma ptr_bytes_example: "ptr_bytes 0x1A4 = [CHR 0xA4, CHR 0x01, NUL, NUL, NUL, NUL, NUL, NUL]"
  by code_simp

lemma map_const_upt: "map (\<lambda>i. c) [0..<n] = replicate n c"
  by (simp add: map_replicate_const)

lemma example_populate:
  "populate example_local (Some ''pipe1'') (Some ''a'') (Some ''b'') None None =
     Inr \<lparr>GetModuleHandleA = 0x7FFA1000, GetProcAddress = 0x7FFA2000,
          library = ''jvm'' @ NUL # replicate 28 (CHR 0xCC),
          command = ''JVM_EnqueueOperation'' @ NUL # replicate 11 (CHR 0xCC),
          pipe = ''pipe1'' @ NUL # replicate 254 (CHR 0xCC),
          argument = [''a'' @ NUL # replicate 258 (CHR 0xCC),
                      ''b'' @ NUL # replicate 258 (CHR 0xCC),
                      NUL # replicate 259 (CHR 0xCC),
                      NUL # replicate 259 (CHR 0xCC)]\<rparr>"
  by (simp add: populate_unfold Let_def example_local_def read_operation_def
      sizeof_EnqueueOperation_eq sizeof_ptr_def MAX_PATH_def strcpy_def c_string_def
      and_then_def map_const_upt)

lemma example_fits:
  "fits MAX_PATH (Some ''pipe1'')" "fits MAX_PATH (Some ''a'')" "fits MAX_PATH (Some ''b'')"
  "fits MAX_PATH None"
  by (simp_all add: fits_def c_string_def MAX_PATH_def)

lemma example_call_succeeds:
  "allocate_remote_argument os_write_succeeds example_local 0x1A4
       (Some ''pipe1'') (Some ''a'') (Some ''b'') None None empty_world =
     Inr (0x20000,
          \<lparr>regions = (\<lambda>a. None)(0x20000 \<mapsto>
             \<lparr>bytes = ptr_bytes 0x1A4 @ replicate 1376 NUL, protect = PAGE_READWRITE\<rparr>),
           events = [Printf ''allocate_remote_argument'', Fflush_stdout,
                     Call_VirtualAllocEx 0x1A4 NULL 1384 PAGE_READWRITE,
                     Call_WriteProcessMemory 0x1A4 0x20000 (ptr_bytes 0x1A4) 8]\<rparr>)"
  by (simp add: allocate_remote_argument_succeeds[OF example_populate]
      os_write_succeeds_def empty_world_def sizeof_EnqueueOperation_eq sizeof_ptr_def)

lemma example_call_write_fails:
  "allocate_remote_argument os_write_fails example_local 0x1A4
       (Some ''pipe1'') (Some ''a'') (Some ''b'') None None empty_world =
     Inr (NULL,
          \<lparr>regions = (\<lambda>a. None)(0x20000 \<mapsto>
             \<lparr>bytes = replicate 1384 NUL, protect = PAGE_READWRITE\<rparr>),
           events = [Printf ''allocate_remote_argument'', Fflush_stdout,
                     Call_VirtualAllocEx 0x1A4 NULL 1384 PAGE_READWRITE,
                     Call_WriteProcessMemory 0x1A4 0x20000 (ptr_bytes 0x1A4) 8,
                     Call_VirtualFreeEx 0x1A4 NULL 1384]\<rparr>)"
  by (simp add: allocate_remote_argument_write_fails[OF example_populate]
      os_write_fails_def empty_world_def sizeof_EnqueueOperation_eq sizeof_ptr_def)

lemma example_code_write_fails:
  "allocate_code os_write_fails example_local 0x1A4 empty_world =
     (NULL,
      \<lparr>regions = (\<lambda>a. None)(0x20000 \<mapsto>
         \<lparr>bytes = replicate 1024 NUL, protect = PAGE_EXECUTE_READWRITE\<rparr>),
       events = [Printf ''allocate_code'', Fflush_stdout,
                 Call_VirtualAllocEx 0x1A4 NULL 1024 PAGE_EXECUTE_READWRITE,
                 Call_WriteProcessMemory 0x1A4 0x20000 (replicate 1024 (CHR 0xCC)) 1024,
                 Call_VirtualFreeEx 0x1A4 NULL 1024]\<rparr>)"
  by (simp add: allocate_code_write_fails os_write_fails_def empty_world_def CODE_SIZE_def
      example_local_def map_const_upt)

lemma remote_fields_after_handle_write:
  "c_string (pipe (read_operation (ptr_bytes h @ replicate 1376 NUL))) = []"
  "map c_string (argument (read_operation (ptr_bytes h @ replicate 1376 NUL))) = [[], [], [], []]"
  by (simp_all add: read_operation_def sizeof_ptr_def MAX_PATH_def length_ptr_bytes c_string_def
      upt_4)

lemma example_lookups:
  "module_code (example_target r) (GetModuleHandleA example_operation) = Some jvm_module"
  "jvm_module (library example_operation) = 0x6D800000"
  "proc_code (example_target r) (GetProcAddress example_operation) = Some jvm_export"
  "jvm_export 0x6D800000 (command example_operation) = 0x6D801234"
  "entry_code (example_target r) 0x6D801234 = Some (\<lambda>a0 a1 a2 a3 p. r)"
  by (simp_all add: example_target_def example_operation_def jvm_module_def jvm_export_def
      c_string_def)

lemma list_of_length_4:
  "length xs = 4 \<Longrightarrow> xs = [xs ! 0, xs ! 1, xs ! 2, xs ! 3]"
  by (cases xs; cases "tl xs"; cases "tl (tl xs)"; cases "tl (tl (tl xs))") auto

lemma less_4_cases: "i < (4::nat) \<Longrightarrow> i = 0 \<or> i = 1 \<or> i = 2 \<or> i = 3"
  by arith

text \<open>
  Every run of the routine that returns has first called \<^verbatim>\<open>printf\<close> and
  \<^verbatim>\<open>fflush\<close>.
\<close>

lemma execute_remote_attach_calls_stdio:
  assumes "execute_remote_attach t operation es = Inr (r, es')"
  shows "take 2 (drop (length es) es') = [Printf ''execute_remote_attach'', Fflush_stdout]"
  using assms
  by (auto simp: execute_remote_attach_def printf_def fflush_stdout_def Let_def
      split: option.splits if_splits)

subsection \<open>The fields of a built block\<close>

text \<open>Once the block is built, the call returns, whatever the operating system answers.\<close>

lemma allocate_remote_argument_returns:
  assumes "populate l p a0 a1 a2 a3 = Inr operation"
  shows "\<exists>r. allocate_remote_argument os l process p a0 a1 a2 a3 w = Inr r"
proof (cases "alloc_ret os = NULL")
  case True
  show ?thesis
    by (simp add: allocate_remote_argument_alloc_fails[OF assms True])
next
  case False
  then show ?thesis
    by (cases "write_ok os")
      (simp_all add: allocate_remote_argument_succeeds[OF assms False]
        allocate_remote_argument_write_fails[OF assms False])
qed

lemma populate_arguments:
  assumes "populate l p a0 a1 a2 a3 = Inr operation"
  shows "length (argument operation) = 4"
    and "list_all (terminated MAX_PATH) (argument operation)"
    and "list_all (\<lambda>field. length (c_string field) < MAX_PATH) (argument operation)"
    and "map c_string (argument operation) = map denoted [a0, a1, a2, a3]"
    and "i < 4 \<Longrightarrow> c_string (argument operation ! i) = denoted ([a0, a1, a2, a3] ! i)"
proof -
  note f = populate_Inr[OF assms]
  show "length (argument operation) = 4"
    by (rule f(7))
  have args: "argument operation = [argument operation ! 0, argument operation ! 1,
      argument operation ! 2, argument operation ! 3]"
    using f(7) by (rule list_of_length_4)
  show "list_all (terminated MAX_PATH) (argument operation)"
    using f(8-11) by (subst args) simp
  have l: "length (c_string (argument operation ! 0)) < MAX_PATH"
    "length (c_string (argument operation ! 1)) < MAX_PATH"
    "length (c_string (argument operation ! 2)) < MAX_PATH"
    "length (c_string (argument operation ! 3)) < MAX_PATH"
    using f(8-11) by (blast intro: terminated_c_string_less)+
  show "list_all (\<lambda>field. length (c_string field) < MAX_PATH) (argument operation)"
    using l by (subst args) simp
  show "map c_string (argument operation) = map denoted [a0, a1, a2, a3]"
    using f(8-11) by (subst args) simp
  show "c_string (argument operation ! i) = denoted ([a0, a1, a2, a3] ! i)" if "i < 4"
    using less_4_cases[OF that] f(8-11) by auto
qed

lemma populate_fields_terminated:
  assumes "populate l p a0 a1 a2 a3 = Inr operation"
  shows "terminated 32 (library operation) \<and> length (c_string (library operation)) < 32 \<and>
         terminated 32 (command operation) \<and> length (c_string (command operation)) < 32 \<and>
         terminated MAX_PATH (pipe operation) \<and> length (c_string (pipe operation)) < MAX_PATH \<and>
         length (argument operation) = 4 \<and>
         list_all (terminated MAX_PATH) (argument operation) \<and>
         list_all (\<lambda>field. length (c_string field) < MAX_PATH) (argument operation)"
proof -
  note f = populate_Inr[OF assms]
  have s: "length (c_string (library operation)) < 32"
    "length (c_string (command operation)) < 32"
    "length (c_string (pipe operation)) < MAX_PATH"
    using f(4-6) by (blast intro: terminated_c_string_less)+
  from s f(4-6) populate_arguments(1-3)[OF assms] show ?thesis
    by blast
qed

section \<open>The claims\<close>

text \<open>
  Claim C1 says that the bytes \<^verbatim>\<open>allocate_remote_argument\<close> copies into the target are
  the populated \<^verbatim>\<open>EnqueueOperation\<close> block, so that the pipe and the four arguments
  can be read back from the target. The code hands \<^verbatim>\<open>&process\<close> and
  \<^verbatim>\<open>sizeof(process)\<close> to \<^verbatim>\<open>WriteProcessMemory\<close>. For the process handle \<open>0x1A4\<close>,
  the pipe \<^verbatim>\<open>pipe1\<close> and the arguments \<^verbatim>\<open>a\<close>, \<^verbatim>\<open>b\<close>, \<^verbatim>\<open>NULL\<close>, \<^verbatim>\<open>NULL\<close>, with
  the allocation and the write both succeeding, the call returns the allocated
  address, the one write it made copied the 8 bytes of the handle, the region in the
  target holds those 8 bytes followed by zero bytes, and the pipe and the four
  arguments read back from the region are all empty.
\<close>

theorem remote_block_holds_the_handle_not_the_operation:
  "allocate_remote_argument os_write_succeeds example_local 0x1A4
       (Some ''pipe1'') (Some ''a'') (Some ''b'') None None empty_world =
     Inr (0x20000,
          \<lparr>regions = (\<lambda>a. None)(0x20000 \<mapsto>
             \<lparr>bytes = ptr_bytes 0x1A4 @ replicate 1376 NUL, protect = PAGE_READWRITE\<rparr>),
           events = [Printf ''allocate_remote_argument'', Fflush_stdout,
                     Call_VirtualAllocEx 0x1A4 NULL 1384 PAGE_READWRITE,
                     Call_WriteProcessMemory 0x1A4 0x20000 (ptr_bytes 0x1A4) 8]\<rparr>) \<and>
   ptr_bytes 0x1A4 = [CHR 0xA4, CHR 0x01, NUL, NUL, NUL, NUL, NUL, NUL] \<and>
   c_string (pipe (read_operation (ptr_bytes 0x1A4 @ replicate 1376 NUL))) = [] \<and>
   map c_string (argument (read_operation (ptr_bytes 0x1A4 @ replicate 1376 NUL))) =
     [[], [], [], []]"
  using example_call_succeeds ptr_bytes_example remote_fields_after_handle_write[of "0x1A4"]
  by simp

text \<open>
  Claim C2, amended. \<^verbatim>\<open>allocate_remote_argument\<close> does not check any length. When
  the pipe is given and one of the five strings does not fit its field (its length is
  \<^verbatim>\<open>MAX_PATH\<close> or more), a \<^verbatim>\<open>strcpy\<close> writes past the end of the field: the call
  has undefined behaviour, it does not return a validation error. And on no input at
  all does the function return \<^verbatim>\<open>NULL\<close> without having called \<^verbatim>\<open>VirtualAllocEx\<close>:
  there is no rejection before the remote operations.
\<close>

theorem capacity_is_not_validated:
  assumes "\<not> (fits MAX_PATH (Some s) \<and> fits MAX_PATH a0 \<and> fits MAX_PATH a1 \<and>
              fits MAX_PATH a2 \<and> fits MAX_PATH a3)"
  shows "allocate_remote_argument os l process (Some s) a0 a1 a2 a3 w = Inl Out_of_bounds_write \<and>
         \<not> rejected w' (allocate_remote_argument os' l' process' p b0 b1 b2 b3 w')"
  using populate_too_long[OF assms] not_rejected
  by (simp add: allocate_remote_argument_fault)

theorem capacity_is_not_validated_witness:
  "\<not> fits MAX_PATH (Some (replicate 260 (CHR ''x''))) \<and>
   allocate_remote_argument os_write_succeeds example_local 0x1A4
       (Some ''pipe1'') (Some ''a'') (Some ''b'') None (Some (replicate 260 (CHR ''x'')))
       empty_world = Inl Out_of_bounds_write \<and>
   \<not> rejected empty_world
       (allocate_remote_argument os_write_succeeds example_local 0x1A4
          (Some ''pipe1'') (Some ''a'') (Some ''b'') None None empty_world)"
proof -
  have h: "\<not> (fits MAX_PATH (Some ''pipe1'') \<and> fits MAX_PATH (Some ''a'') \<and>
               fits MAX_PATH (Some ''b'') \<and> fits MAX_PATH None \<and>
               fits MAX_PATH (Some (replicate 260 (CHR ''x''))))"
    by (simp add: fits_def c_string_def MAX_PATH_def)
  have l: "\<not> fits MAX_PATH (Some (replicate 260 (CHR ''x'')))"
    by (simp add: fits_def c_string_def MAX_PATH_def)
  show ?thesis
    using l capacity_is_not_validated[OF h, of os_write_succeeds example_local "0x1A4"
        empty_world empty_world os_write_succeeds example_local "0x1A4"
        "Some ''pipe1''" "Some ''a''" "Some ''b''" None None]
    by simp
qed

text \<open>
  The statement as the spec has it, that a string over capacity is rejected before any
  remote operation, fails for a pipe name of 300 characters: the call is an
  out-of-bounds write, not a rejection.
\<close>

theorem overlong_pipe_is_not_rejected:
  "allocate_remote_argument os_write_succeeds example_local 0x1A4
       (Some (replicate 300 (CHR ''x''))) None None None None empty_world =
     Inl Out_of_bounds_write \<and>
   \<not> rejected empty_world
       (allocate_remote_argument os_write_succeeds example_local 0x1A4
          (Some (replicate 300 (CHR ''x''))) None None None None empty_world)"
proof -
  have "\<not> fits MAX_PATH (Some (replicate 300 (CHR ''x'')))"
    by (simp add: fits_def c_string_def MAX_PATH_def)
  then have "populate example_local (Some (replicate 300 (CHR ''x''))) None None None None =
      Inl Out_of_bounds_write"
    by (simp add: populate_too_long)
  then show ?thesis
    by (simp add: allocate_remote_argument_fault rejected_def)
qed

text \<open>
  Claim C3 says that when \<^verbatim>\<open>VirtualAllocEx\<close> succeeds and \<^verbatim>\<open>WriteProcessMemory\<close>
  fails, \<^verbatim>\<open>allocate_code\<close> and \<^verbatim>\<open>allocate_remote_argument\<close> release the region at
  its allocated address before they return \<^verbatim>\<open>NULL\<close>. Both functions call
  \<^verbatim>\<open>VirtualFreeEx\<close> with the address \<^verbatim>\<open>NULL\<close> (and a size that is not 0). With the
  region allocated at \<open>0x20000\<close> and the write failing, each function returns
  \<^verbatim>\<open>NULL\<close>, its last call is \<^verbatim>\<open>VirtualFreeEx\<close> at address \<^verbatim>\<open>NULL\<close>, and the region at
  \<open>0x20000\<close> is still committed in the target.
\<close>

theorem failed_copy_frees_at_NULL_and_leaves_the_region:
  "allocate_code os_write_fails example_local 0x1A4 empty_world =
     (NULL,
      \<lparr>regions = (\<lambda>a. None)(0x20000 \<mapsto>
         \<lparr>bytes = replicate 1024 NUL, protect = PAGE_EXECUTE_READWRITE\<rparr>),
       events = [Printf ''allocate_code'', Fflush_stdout,
                 Call_VirtualAllocEx 0x1A4 NULL 1024 PAGE_EXECUTE_READWRITE,
                 Call_WriteProcessMemory 0x1A4 0x20000 (replicate 1024 (CHR 0xCC)) 1024,
                 Call_VirtualFreeEx 0x1A4 NULL 1024]\<rparr>) \<and>
   allocate_remote_argument os_write_fails example_local 0x1A4
       (Some ''pipe1'') (Some ''a'') (Some ''b'') None None empty_world =
     Inr (NULL,
          \<lparr>regions = (\<lambda>a. None)(0x20000 \<mapsto>
             \<lparr>bytes = replicate 1384 NUL, protect = PAGE_READWRITE\<rparr>),
           events = [Printf ''allocate_remote_argument'', Fflush_stdout,
                     Call_VirtualAllocEx 0x1A4 NULL 1384 PAGE_READWRITE,
                     Call_WriteProcessMemory 0x1A4 0x20000 (ptr_bytes 0x1A4) 8,
                     Call_VirtualFreeEx 0x1A4 NULL 1384]\<rparr>)"
  using example_code_write_fails example_call_write_fails by simp

text \<open>
  Claim C4. When the call through the first function pointer of the block returns
  \<^verbatim>\<open>NULL\<close> for the library field, or it returns a module and the call through the
  second function pointer returns \<^verbatim>\<open>NULL\<close> for the command field,
  \<^verbatim>\<open>execute_remote_attach\<close> returns \<^verbatim>\<open>ENQUEUE_ERROR\<close>, and it has made no call of an
  entry point: its calls are those of \<^verbatim>\<open>printf\<close>, \<^verbatim>\<open>fflush\<close> and the lookups.
\<close>

theorem execute_remote_attach_lookup_failure:
  assumes "module_code t (GetModuleHandleA operation) = Some get_module"
    and "get_module (library operation) = NULL \<or>
         proc_code t (GetProcAddress operation) = Some get_proc \<and>
         get_proc (get_module (library operation)) (command operation) = NULL"
  shows "execute_remote_attach t operation es =
           Inr (ENQUEUE_ERROR,
                es @ [Printf ''execute_remote_attach'', Fflush_stdout,
                      Via_GetModuleHandleA (GetModuleHandleA operation) (library operation)] @
                (if get_module (library operation) = NULL then []
                 else [Via_GetProcAddress (GetProcAddress operation)
                         (get_module (library operation)) (command operation)]))"
  using assms
  by (auto simp: execute_remote_attach_def printf_def fflush_stdout_def Let_def)

theorem execute_remote_attach_lookup_failure_witness:
  "module_code no_jvm_target (GetModuleHandleA example_operation) = Some (\<lambda>name. NULL) \<and>
   execute_remote_attach no_jvm_target example_operation [] =
     Inr (0xffff,
          [Printf ''execute_remote_attach'', Fflush_stdout,
           Via_GetModuleHandleA 0x7FFA1000 (''jvm'' @ replicate 29 NUL)])"
proof -
  have h1: "module_code no_jvm_target (GetModuleHandleA example_operation) = Some (\<lambda>name. NULL)"
    by (simp add: no_jvm_target_def example_operation_def)
  have h2: "(\<lambda>name. NULL) (library example_operation) = NULL \<or>
         proc_code no_jvm_target (GetProcAddress example_operation) = Some undefined \<and>
         undefined ((\<lambda>name. NULL) (library example_operation)) (command example_operation) = NULL"
    by simp
  show ?thesis
    using h1 execute_remote_attach_lookup_failure[OF h1 h2, of "[]"]
    by (simp add: example_operation_def ENQUEUE_ERROR_def)
qed

text \<open>
  Claim C5. When both lookups succeed, \<^verbatim>\<open>execute_remote_attach\<close> calls the address
  the second lookup returned with \<^verbatim>\<open>argument[0]\<close>, \<^verbatim>\<open>argument[1]\<close>, \<^verbatim>\<open>argument[2]\<close>,
  \<^verbatim>\<open>argument[3]\<close> and \<^verbatim>\<open>pipe\<close> of the block, in this order, as its last call, and
  returns the 32 bits that call returned.
\<close>

theorem execute_remote_attach_success:
  assumes "module_code t (GetModuleHandleA operation) = Some get_module"
    and "get_module (library operation) \<noteq> NULL"
    and "proc_code t (GetProcAddress operation) = Some get_proc"
    and "get_proc (get_module (library operation)) (command operation) = f"
    and "f \<noteq> NULL"
    and "entry_code t f = Some entry"
  shows "execute_remote_attach t operation es =
           Inr (entry (argument operation ! 0) (argument operation ! 1)
                      (argument operation ! 2) (argument operation ! 3) (pipe operation),
                es @ [Printf ''execute_remote_attach'', Fflush_stdout,
                      Via_GetModuleHandleA (GetModuleHandleA operation) (library operation),
                      Via_GetProcAddress (GetProcAddress operation)
                         (get_module (library operation)) (command operation),
                      Via_JVM_EnqueueOperation f
                         (argument operation ! 0) (argument operation ! 1)
                         (argument operation ! 2) (argument operation ! 3) (pipe operation)])"
  using assms
  by (simp add: execute_remote_attach_def printf_def fflush_stdout_def Let_def cast_DWORD_id)

theorem execute_remote_attach_success_witness:
  "execute_remote_attach (example_target 7) example_operation [] =
     Inr (7,
          [Printf ''execute_remote_attach'', Fflush_stdout,
           Via_GetModuleHandleA 0x7FFA1000 (''jvm'' @ replicate 29 NUL),
           Via_GetProcAddress 0x7FFA2000 0x6D800000 (''JVM_EnqueueOperation'' @ replicate 12 NUL),
           Via_JVM_EnqueueOperation 0x6D801234
             (''a'' @ replicate 259 NUL) (''b'' @ replicate 259 NUL)
             (replicate 260 NUL) (replicate 260 NUL) (''pipe1'' @ replicate 255 NUL)])"
proof -
  have h2: "jvm_module (library example_operation) \<noteq> NULL"
    by (simp add: example_lookups)
  have h4: "jvm_export (jvm_module (library example_operation)) (command example_operation) =
      0x6D801234"
    by (simp add: example_lookups)
  have h5: "(0x6D801234 :: ptr) \<noteq> NULL"
    by simp
  show ?thesis
    using execute_remote_attach_success[OF example_lookups(1) h2 example_lookups(3) h4 h5
        example_lookups(5), of 7 "[]"]
    by (simp add: example_operation_def jvm_module_def c_string_def)
qed

text \<open>
  Claim C6 says that every call \<^verbatim>\<open>execute_remote_attach\<close> makes goes through one of
  the function pointers of the block, and that it uses no string literal, global or
  imported symbol of the injecting process; the comment above the function says that
  it must not reference any address unknown to the target. The function begins with
  \<^verbatim>\<open>printf("execute_remote_attach"); fflush(stdout);\<close>. On the example block, in a
  target where both lookups succeed and the entry point returns 0, the first two of
  its five calls are \<^verbatim>\<open>printf\<close> with a string literal and \<^verbatim>\<open>fflush\<close> of \<^verbatim>\<open>stdout\<close>,
  which do not go through the block.
\<close>

theorem routine_calls_printf_and_fflush_by_linkage:
  "execute_remote_attach (example_target 0) example_operation [] =
     Inr (0,
          [Printf ''execute_remote_attach'', Fflush_stdout,
           Via_GetModuleHandleA 0x7FFA1000 (library example_operation),
           Via_GetProcAddress 0x7FFA2000 0x6D800000 (command example_operation),
           Via_JVM_EnqueueOperation 0x6D801234
             (argument example_operation ! 0) (argument example_operation ! 1)
             (argument example_operation ! 2) (argument example_operation ! 3)
             (pipe example_operation)]) \<and>
   map through_block
     [Printf ''execute_remote_attach'', Fflush_stdout,
      Via_GetModuleHandleA 0x7FFA1000 (library example_operation),
      Via_GetProcAddress 0x7FFA2000 0x6D800000 (command example_operation),
      Via_JVM_EnqueueOperation 0x6D801234
        (argument example_operation ! 0) (argument example_operation ! 1)
        (argument example_operation ! 2) (argument example_operation ! 3)
        (pipe example_operation)] = [False, False, True, True, True]"
  by (simp add: execute_remote_attach_def printf_def fflush_stdout_def Let_def cast_DWORD_id
      example_lookups, simp add: example_operation_def)

text \<open>
  Claim C7. For every call of \<^verbatim>\<open>allocate_remote_argument\<close> with a pipe and
  strings that fit their fields, the block is built and the call returns, and for each
  of the four arguments passed as \<^verbatim>\<open>NULL\<close> the block holds the empty string: all
  four argument fields hold a terminated string, the one given or the empty one.
\<close>

theorem absent_arguments_are_stored_as_empty_strings:
  assumes "fits MAX_PATH (Some s)" and "fits MAX_PATH a0" and "fits MAX_PATH a1"
    and "fits MAX_PATH a2" and "fits MAX_PATH a3"
    and "i < 4" and "[a0, a1, a2, a3] ! i = None"
  shows "\<exists>operation r.
           populate l (Some s) a0 a1 a2 a3 = Inr operation \<and>
           allocate_remote_argument os l process (Some s) a0 a1 a2 a3 w = Inr r \<and>
           c_string (argument operation ! i) = [] \<and>
           length (argument operation) = 4 \<and>
           list_all (terminated MAX_PATH) (argument operation) \<and>
           map c_string (argument operation) = map denoted [a0, a1, a2, a3]"
proof -
  from populate_defined[OF assms(1-5)]
  obtain operation where op: "populate l (Some s) a0 a1 a2 a3 = Inr operation"
    by blast
  from allocate_remote_argument_returns[OF op]
  obtain r where r: "allocate_remote_argument os l process (Some s) a0 a1 a2 a3 w = Inr r"
    by blast
  have "c_string (argument operation ! i) = denoted ([a0, a1, a2, a3] ! i)"
    using populate_arguments(5)[OF op assms(6)] .
  then have "c_string (argument operation ! i) = []"
    by (simp add: assms(7) denoted_def)
  with op r populate_arguments(1,2,4)[OF op] show ?thesis
    by blast
qed

theorem absent_arguments_are_stored_as_empty_strings_witness:
  "(\<exists>operation r.
      populate example_local (Some ''pipe1'') None None (Some ''b'') None = Inr operation \<and>
      allocate_remote_argument os_write_succeeds example_local 0x1A4
        (Some ''pipe1'') None None (Some ''b'') None empty_world = Inr r \<and>
      c_string (argument operation ! 0) = [] \<and>
      length (argument operation) = 4 \<and>
      list_all (terminated 260) (argument operation) \<and>
      map c_string (argument operation) = [[], [], ''b'', []]) \<and>
   (\<exists>operation r.
      populate example_local (Some ''pipe1'') (Some ''a'') None None None = Inr operation \<and>
      allocate_remote_argument os_write_fails example_local 0x1A4
        (Some ''pipe1'') (Some ''a'') None None None empty_world = Inr r \<and>
      c_string (argument operation ! 1) = [] \<and>
      length (argument operation) = 4 \<and>
      list_all (terminated 260) (argument operation) \<and>
      map c_string (argument operation) = [''a'', [], [], []])"
proof -
  have i0: "(0::nat) < 4" and i1: "(1::nat) < 4"
    by simp_all
  have n0: "[None, None, Some ''b'', None] ! 0 = None"
    by simp
  have n1: "[Some ''a'', None, None, None] ! 1 = None"
    by simp
  show ?thesis
    using absent_arguments_are_stored_as_empty_strings[OF example_fits(1) example_fits(4)
        example_fits(4) example_fits(3) example_fits(4) i0 n0,
        of example_local os_write_succeeds "0x1A4" empty_world]
      absent_arguments_are_stored_as_empty_strings[OF example_fits(1) example_fits(2)
        example_fits(4) example_fits(4) example_fits(4) i1 n1,
        of example_local os_write_fails "0x1A4" empty_world]
    by (simp add: denoted_def c_string_def MAX_PATH_def)
qed

text \<open>
  Claim C8, amended. The builder checks no length, so the invariant holds for the
  inputs that fit, not for all it is given: when the pipe is not \<^verbatim>\<open>NULL\<close> and the
  pipe and the four arguments are each shorter than \<^verbatim>\<open>MAX_PATH\<close>, the block is built,
  and its library and command fields (32 bytes), its pipe field and its four argument
  fields (\<^verbatim>\<open>MAX_PATH\<close> bytes each) contain a terminator, with the string before it
  shorter than the field.
\<close>

theorem fitting_strings_give_terminated_fields:
  assumes "fits MAX_PATH (Some s)" and "fits MAX_PATH a0" and "fits MAX_PATH a1"
    and "fits MAX_PATH a2" and "fits MAX_PATH a3"
  shows "\<exists>operation.
           populate l (Some s) a0 a1 a2 a3 = Inr operation \<and>
           terminated 32 (library operation) \<and> length (c_string (library operation)) < 32 \<and>
           terminated 32 (command operation) \<and> length (c_string (command operation)) < 32 \<and>
           terminated MAX_PATH (pipe operation) \<and>
           length (c_string (pipe operation)) < MAX_PATH \<and>
           length (argument operation) = 4 \<and>
           list_all (terminated MAX_PATH) (argument operation) \<and>
           list_all (\<lambda>field. length (c_string field) < MAX_PATH) (argument operation)"
proof -
  from populate_defined[OF assms]
  obtain operation where op: "populate l (Some s) a0 a1 a2 a3 = Inr operation"
    by blast
  from op populate_fields_terminated[OF op] show ?thesis
    by blast
qed

theorem fitting_strings_give_terminated_fields_witness:
  "fits MAX_PATH (Some ''pipe1'') \<and> fits MAX_PATH (Some ''a'') \<and> fits MAX_PATH (Some ''b'') \<and>
   fits MAX_PATH None \<and>
   populate example_local (Some ''pipe1'') (Some ''a'') (Some ''b'') None None =
     Inr \<lparr>GetModuleHandleA = 0x7FFA1000, GetProcAddress = 0x7FFA2000,
          library = ''jvm'' @ NUL # replicate 28 (CHR 0xCC),
          command = ''JVM_EnqueueOperation'' @ NUL # replicate 11 (CHR 0xCC),
          pipe = ''pipe1'' @ NUL # replicate 254 (CHR 0xCC),
          argument = [''a'' @ NUL # replicate 258 (CHR 0xCC),
                      ''b'' @ NUL # replicate 258 (CHR 0xCC),
                      NUL # replicate 259 (CHR 0xCC),
                      NUL # replicate 259 (CHR 0xCC)]\<rparr> \<and>
   terminated 32 (''jvm'' @ NUL # replicate 28 (CHR 0xCC)) \<and>
   terminated 32 (''JVM_EnqueueOperation'' @ NUL # replicate 11 (CHR 0xCC)) \<and>
   terminated 260 (''pipe1'' @ NUL # replicate 254 (CHR 0xCC)) \<and>
   list_all (terminated 260)
     [''a'' @ NUL # replicate 258 (CHR 0xCC), ''b'' @ NUL # replicate 258 (CHR 0xCC),
      NUL # replicate 259 (CHR 0xCC), NUL # replicate 259 (CHR 0xCC)]"
  using example_fits example_populate
    fitting_strings_give_terminated_fields[OF example_fits(1) example_fits(2) example_fits(3)
      example_fits(4) example_fits(4), of example_local]
  by (simp add: MAX_PATH_def)

text \<open>
  The invariant does not hold for every input the builder takes. It takes a fourth
  argument of 260 characters without complaint; the string and its terminator need
  261 bytes, the \<^verbatim>\<open>strcpy\<close> of line 94 writes past the end of \<^verbatim>\<open>argument[3]\<close>, and
  the 260 bytes that land in the field contain no terminator.
\<close>

theorem overlong_argument_overruns_its_field:
  "populate example_local (Some ''pipe1'') (Some ''a'') (Some ''b'') None
       (Some (replicate 260 (CHR ''x''))) = Inl Out_of_bounds_write \<and>
   length (c_string (replicate 260 (CHR ''x''))) = MAX_PATH \<and>
   \<not> terminated MAX_PATH (take MAX_PATH (c_string (replicate 260 (CHR ''x'')) @ [NUL]))"
proof -
  have "\<not> (fits MAX_PATH (Some ''pipe1'') \<and> fits MAX_PATH (Some ''a'') \<and>
            fits MAX_PATH (Some ''b'') \<and> fits MAX_PATH None \<and>
            fits MAX_PATH (Some (replicate 260 (CHR ''x''))))"
    by (simp add: fits_def c_string_def MAX_PATH_def)
  then have "populate example_local (Some ''pipe1'') (Some ''a'') (Some ''b'') None
       (Some (replicate 260 (CHR ''x''))) = Inl Out_of_bounds_write"
    by (rule populate_too_long)
  then show ?thesis
    by (simp add: c_string_def MAX_PATH_def terminated_def)
qed

text \<open>
  Claim C9. When both lookups succeed and the entry point returns \<open>0xffff\<close>,
  \<^verbatim>\<open>execute_remote_attach\<close> returns \<^verbatim>\<open>ENQUEUE_ERROR\<close> after having called the entry
  point, the same value it returns, in another run, when the module lookup fails.
\<close>

theorem entry_result_can_equal_the_sentinel:
  assumes "module_code t (GetModuleHandleA operation) = Some get_module"
    and "get_module (library operation) \<noteq> NULL"
    and "proc_code t (GetProcAddress operation) = Some get_proc"
    and "get_proc (get_module (library operation)) (command operation) = f"
    and "f \<noteq> NULL"
    and "entry_code t f = Some entry"
    and "entry (argument operation ! 0) (argument operation ! 1)
               (argument operation ! 2) (argument operation ! 3) (pipe operation) = 0xffff"
    and "module_code t' (GetModuleHandleA operation') = Some get_module'"
    and "get_module' (library operation') = NULL"
  shows "\<exists>es1 es2.
           execute_remote_attach t operation es = Inr (ENQUEUE_ERROR, es1) \<and>
           last es1 = Via_JVM_EnqueueOperation f
                 (argument operation ! 0) (argument operation ! 1)
                 (argument operation ! 2) (argument operation ! 3) (pipe operation) \<and>
           execute_remote_attach t' operation' es' = Inr (ENQUEUE_ERROR, es2) \<and>
           last es2 = Via_GetModuleHandleA (GetModuleHandleA operation') (library operation')"
  using assms
  by (simp add: execute_remote_attach_def printf_def fflush_stdout_def Let_def cast_DWORD_id
      ENQUEUE_ERROR_def)

theorem entry_result_can_equal_the_sentinel_witness:
  "map_sum id fst (execute_remote_attach (example_target 0xffff) example_operation []) =
     Inr 0xffff \<and>
   map_sum id fst (execute_remote_attach no_jvm_target example_operation []) =
     Inr 0xffff"
proof -
  have h2: "jvm_module (library example_operation) \<noteq> NULL"
    by (simp add: example_lookups)
  have h4: "jvm_export (jvm_module (library example_operation)) (command example_operation) =
      0x6D801234"
    by (simp add: example_lookups)
  have h5: "(0x6D801234 :: ptr) \<noteq> NULL"
    by simp
  have h7: "(\<lambda>a0 a1 a2 a3 p. 0xffff :: 32 word)
              (argument example_operation ! 0) (argument example_operation ! 1)
              (argument example_operation ! 2) (argument example_operation ! 3)
              (pipe example_operation) = 0xffff"
    by simp
  have h8: "module_code no_jvm_target (GetModuleHandleA example_operation) = Some (\<lambda>name. NULL)"
    by (simp add: no_jvm_target_def example_operation_def)
  have h9: "(\<lambda>name. NULL) (library example_operation) = NULL"
    by simp
  show ?thesis
    using entry_result_can_equal_the_sentinel[OF example_lookups(1) h2 example_lookups(3) h4 h5
        example_lookups(5) h7 h8 h9, of "[]" "[]"]
    by (auto simp: ENQUEUE_ERROR_def)
qed

text \<open>
  Claim C10. \<^verbatim>\<open>allocate_remote_argument\<close> copies the pipe without a \<^verbatim>\<open>NULL\<close> check:
  with a \<^verbatim>\<open>NULL\<close> pipe the \<^verbatim>\<open>strcpy\<close> reads through a null pointer, whatever the
  other arguments are, while with a pipe that fits and all four arguments \<^verbatim>\<open>NULL\<close>
  the call returns.
\<close>

theorem pipe_is_copied_without_a_NULL_guard:
  assumes "fits MAX_PATH (Some s)"
  shows "allocate_remote_argument os l process None a0 a1 a2 a3 w = Inl Null_dereference \<and>
         (\<exists>r. allocate_remote_argument os l process (Some s) None None None None w = Inr r)"
proof -
  have n: "fits MAX_PATH None"
    by (simp add: fits_def)
  from populate_defined[OF assms n n n n]
  obtain operation where op: "populate l (Some s) None None None None = Inr operation"
    by blast
  have "\<exists>r. allocate_remote_argument os l process (Some s) None None None None w = Inr r"
  proof (cases "alloc_ret os = NULL")
    case True
    show ?thesis
      by (simp add: allocate_remote_argument_alloc_fails[OF op True])
  next
    case False
    then show ?thesis
      by (cases "write_ok os")
        (simp_all add: allocate_remote_argument_succeeds[OF op False]
          allocate_remote_argument_write_fails[OF op False])
  qed
  then show ?thesis
    by (simp add: allocate_remote_argument_fault[OF populate_NULL_pipe])
qed

theorem pipe_is_copied_without_a_NULL_guard_witness:
  "fits MAX_PATH (Some ''pipe1'') \<and>
   allocate_remote_argument os_write_succeeds example_local 0x1A4
       None (Some ''a'') (Some ''b'') None None empty_world = Inl Null_dereference \<and>
   (\<exists>r. allocate_remote_argument os_write_succeeds example_local 0x1A4
       (Some ''pipe1'') None None None None empty_world = Inr r)"
  using example_fits(1) pipe_is_copied_without_a_NULL_guard[OF example_fits(1)]
  by simp

end
